theory Spec2Isabelle
  imports Main
begin

section \<open>Values of the JavaScript runtime\<close>

text \<open>
  The credential file and the token endpoint's replies are JSON documents that the code
  reads without validation, so every member of a document may be missing
  (\<open>None\<close> stands for JavaScript's \<open>undefined\<close>).

  A date text is modelled by what \<open>new Date(text)\<close> makes of it: \<open>IsoString t\<close> is the
  text that \<open>toISOString()\<close> prints for the instant \<open>t\<close> (milliseconds since the epoch),
  \<open>NotADate\<close> is any text that does not parse to a date. A \<open>Date\<close> object is its time
  value, \<open>None\<close> for an Invalid Date (time value NaN). Clock readings are integers
  (\<open>Date.now()\<close>) well inside the range of \<open>Date\<close>.
\<close>

datatype date_string = IsoString int | NotADate

definition maxTime :: int where
  "maxTime = 8640000000000000"

definition new_Date :: "date_string option \<Rightarrow> int option" where
  "new_Date txt = (case txt of Some (IsoString t) \<Rightarrow> Some t | _ \<Rightarrow> None)"

text \<open>\<open>new Date(Date.now() + expires_in * 1000)\<close>: a missing \<open>expires_in\<close> gives NaN, and
  a time value outside the range of \<open>Date\<close> is clipped to NaN.\<close>

definition Date_after :: "int \<Rightarrow> int option \<Rightarrow> int option" where
  "Date_after clock secs =
     (case secs of
        None \<Rightarrow> None
      | Some e \<Rightarrow> if \<bar>clock + e * 1000\<bar> \<le> maxTime then Some (clock + e * 1000) else None)"

text \<open>\<open>toISOString()\<close> throws a RangeError on an Invalid Date: \<open>None\<close> is the throw.\<close>

definition toISOString :: "int option \<Rightarrow> date_string option" where
  "toISOString d = map_option IsoString d"

text \<open>\<open>a <= b\<close> on two \<open>Date\<close> objects compares their time values; with NaN on either
  side the comparison is false.\<close>

definition date_le :: "int option \<Rightarrow> int option \<Rightarrow> bool" where
  "date_le a b = (case (a, b) of (Some x, Some y) \<Rightarrow> x \<le> y | _ \<Rightarrow> False)"

text \<open>Truthiness of a string member: \<open>undefined\<close> and the empty string are falsy.\<close>

definition truthy :: "string option \<Rightarrow> bool" where
  "truthy v = (case v of None \<Rightarrow> False | Some txt \<Rightarrow> txt \<noteq> [])"

section \<open>Data model\<close>

text \<open>
  \<open>interface StoredAuthInfo\<close> (services/graph.ts lines 14-21, index.ts lines 37-44). The
  member \<open>extra\<close> holds the members of the parsed document that the interface does not
  name: \<open>JSON.parse\<close> keeps them on the object and the spread \<open>...this.authInfo\<close>
  copies them.
\<close>

record StoredAuthInfo =
  clientId :: "string option"
  authenticated :: "bool option"
  timestamp :: "date_string option"
  expiresAt :: "date_string option"
  accessToken :: "string option"
  refreshToken :: "string option"
  extra :: "(string \<times> string) list"

text \<open>\<open>interface RefreshTokenResponse\<close> (graph.ts lines 23-29) and \<open>interface
  TokenResponse\<close> (index.ts lines 29-35) have the same members. \<open>expires_in\<close> is a whole
  number of seconds.\<close>

record TokenResponse =
  access_token :: "string option"
  refresh_token :: "string option"
  expires_in :: "int option"
  token_type :: "string option"
  scope :: "string option"

text \<open>The file at \<open>authPath\<close>: missing (or unreadable), a text that \<open>JSON.parse\<close>
  rejects, or a text that parses to an object with the given members (any other JSON
  value has none of the members the code reads, like an object without them).\<close>

datatype auth_file = NoFile | NotJson | Json StoredAuthInfo

text \<open>What \<open>fs.writeFile\<close> did. When it rejects, what it left at the path is the
  environment's choice.\<close>

datatype write_outcome = WriteOk | WriteFailed auth_file

text \<open>What \<open>fetch\<close> on the token endpoint did (graph.ts lines 54-83): it rejected, it
  resolved to a response that is not \<open>ok\<close> (status and body text), or it resolved to an
  \<open>ok\<close> response whose \<open>json()\<close> gives a token response or rejects (\<open>None\<close>). The
  body text of a response that is not \<open>ok\<close> is taken to be readable.\<close>

datatype fetch_outcome = NetworkFault | Rejected nat string | Accepted "TokenResponse option"

text \<open>A request sent to the token endpoint with \<open>grant_type=refresh_token\<close>, carrying
  the given \<open>refresh_token\<close>.\<close>

datatype request = RefreshRequest string

datatype console_msg =
    NoRefreshTokenAvailable
  | TokenRefreshFailed nat string
  | ErrorRefreshingToken
  | TokenRefreshed date_string
  | TokenExpiringSoon
  | UnableToRefreshToken
  | FailedToInitialize

datatype provider_error = UnableToObtainToken | NotAuthenticated

text \<open>
  The fields of \<open>class GraphService\<close> (\<open>client\<close> is true once the Graph client object
  exists), together with the world the class acts on: the file at \<open>authPath\<close>, the
  requests sent so far to the token endpoint, and the console.
\<close>

record provider_state =
  authInfo :: "StoredAuthInfo option"
  client :: bool
  isInitialized :: bool
  authFile :: auth_file
  network :: "request list"
  console :: "console_msg list"

text \<open>What the environment answers during one call: the clock read in
  \<open>ensureValidToken\<close> (line 115), the outcome of the fetch, the clock read for the new
  expiry (line 86) and for the timestamp (line 94), and the outcome of the write.\<close>

record env =
  clock_check :: int
  fetched :: fetch_outcome
  clock_expiry :: int
  clock_stamp :: int
  written :: write_outcome

definition logmsg :: "console_msg \<Rightarrow> provider_state \<Rightarrow> provider_state" where
  "logmsg m s = s\<lparr>console := console s @ [m]\<rparr>"

definition no_info :: StoredAuthInfo where
  "no_info = \<lparr>clientId = None, authenticated = None, timestamp = None, expiresAt = None,
     accessToken = None, refreshToken = None, extra = []\<rparr>"

section \<open>The provider (services/graph.ts)\<close>

text \<open>
  An async function runs synchronously up to its first \<open>await\<close> on a pending promise.
  \<open>refreshAccessToken\<close> is written as the part up to and including the call of \<open>fetch\<close>
  (lines 48-75; \<open>None\<close> means: suspended, request sent) followed by the part that runs
  once the fetch has settled (lines 77-106).
\<close>

definition refreshAccessToken_begin :: "provider_state \<Rightarrow> bool option \<times> provider_state" where
  "refreshAccessToken_begin s =
     (case authInfo s of
        None \<Rightarrow> (Some False, logmsg NoRefreshTokenAvailable s)
      | Some a \<Rightarrow>
          if \<not> truthy (refreshToken a) then (Some False, logmsg NoRefreshTokenAvailable s)
          else (None, s\<lparr>network := network s @ [RefreshRequest (the (refreshToken a))]\<rparr>))"

definition refreshAccessToken_resume :: "env \<Rightarrow> provider_state \<Rightarrow> bool \<times> provider_state" where
  "refreshAccessToken_resume e s =
     (case fetched e of
        NetworkFault \<Rightarrow> (False, logmsg ErrorRefreshingToken s)
      | Rejected status body \<Rightarrow> (False, logmsg (TokenRefreshFailed status body) s)
      | Accepted None \<Rightarrow> (False, logmsg ErrorRefreshingToken s)
      | Accepted (Some tokenResponse) \<Rightarrow>
          (case toISOString (Date_after (clock_expiry e) (expires_in tokenResponse)) of
             None \<Rightarrow> (False, logmsg ErrorRefreshingToken s)
           | Some isoText \<Rightarrow>
               let old = (case authInfo s of None \<Rightarrow> no_info | Some a \<Rightarrow> a);
                   new = old\<lparr>accessToken := access_token tokenResponse,
                             refreshToken := refresh_token tokenResponse,
                             expiresAt := Some isoText,
                             timestamp := Some (IsoString (clock_stamp e))\<rparr>;
                   s1 = s\<lparr>authInfo := Some new\<rparr>
               in (case written e of
                     WriteFailed remains \<Rightarrow>
                       (False, logmsg ErrorRefreshingToken (s1\<lparr>authFile := remains\<rparr>))
                   | WriteOk \<Rightarrow>
                       (True, logmsg (TokenRefreshed isoText) (s1\<lparr>authFile := Json new\<rparr>)))))"

definition refreshAccessToken :: "env \<Rightarrow> provider_state \<Rightarrow> bool \<times> provider_state" where
  "refreshAccessToken e s =
     (case refreshAccessToken_begin s of
        (Some b, s') \<Rightarrow> (b, s')
      | (None, s') \<Rightarrow> refreshAccessToken_resume e s')"

text \<open>\<open>ensureValidToken\<close> (lines 109-126): up to the request, and as a whole.\<close>

definition refreshThreshold :: "int \<Rightarrow> int" where
  "refreshThreshold clock = clock + 5 * 60 * 1000"

definition ensureValidToken_begin :: "int \<Rightarrow> provider_state \<Rightarrow> bool option \<times> provider_state" where
  "ensureValidToken_begin clock s =
     (case authInfo s of
        None \<Rightarrow> (Some False, s)
      | Some a \<Rightarrow>
          if date_le (new_Date (expiresAt a)) (Some (refreshThreshold clock))
          then refreshAccessToken_begin (logmsg TokenExpiringSoon s)
          else (Some True, s))"

definition ensureValidToken :: "env \<Rightarrow> provider_state \<Rightarrow> bool \<times> provider_state" where
  "ensureValidToken e s =
     (case ensureValidToken_begin (clock_check e) s of
        (Some b, s') \<Rightarrow> (b, s')
      | (None, s') \<Rightarrow> refreshAccessToken_resume e s')"

text \<open>The token provider handed to the Graph client, \<open>authProvider.getAccessToken\<close>
  (lines 147-154). A call that needs no refresh awaits only promises that are already
  settled and changes no state on the way, so it is run in one piece.\<close>

definition getAccessToken_finish :: "bool \<Rightarrow> provider_state \<Rightarrow> provider_error + string" where
  "getAccessToken_finish isValid s =
     (case authInfo s of
        None \<Rightarrow> Inl UnableToObtainToken
      | Some a \<Rightarrow>
          if \<not> isValid \<or> \<not> truthy (accessToken a) then Inl UnableToObtainToken
          else Inr (the (accessToken a)))"

definition getAccessToken_begin ::
  "int \<Rightarrow> provider_state \<Rightarrow> (provider_error + string) option \<times> provider_state" where
  "getAccessToken_begin clock s =
     (case ensureValidToken_begin clock s of
        (Some b, s') \<Rightarrow> (Some (getAccessToken_finish b s'), s')
      | (None, s') \<Rightarrow> (None, s'))"

definition getAccessToken_resume ::
  "env \<Rightarrow> provider_state \<Rightarrow> (provider_error + string) \<times> provider_state" where
  "getAccessToken_resume e s =
     (case refreshAccessToken_resume e s of (b, s') \<Rightarrow> (getAccessToken_finish b s', s'))"

definition getAccessToken ::
  "env \<Rightarrow> provider_state \<Rightarrow> (provider_error + string) \<times> provider_state" where
  "getAccessToken e s =
     (case getAccessToken_begin (clock_check e) s of
        (Some r, s') \<Rightarrow> (r, s')
      | (None, s') \<Rightarrow> getAccessToken_resume e s')"

text \<open>\<open>initializeClient\<close> (lines 128-163), \<open>getClient\<close> (lines 204-213) and
  \<open>isAuthenticated\<close> (lines 215-217).\<close>

definition initializeClient :: "env \<Rightarrow> provider_state \<Rightarrow> provider_state" where
  "initializeClient e s =
     (if isInitialized s then s
      else (case authFile s of
              NoFile \<Rightarrow> logmsg FailedToInitialize s
            | NotJson \<Rightarrow> logmsg FailedToInitialize s
            | Json doc \<Rightarrow>
                let s1 = s\<lparr>authInfo := Some doc\<rparr> in
                if authenticated doc = Some True \<and> truthy (accessToken doc) then
                  (case ensureValidToken e s1 of
                     (hasValidToken, s2) \<Rightarrow>
                       if \<not> hasValidToken then logmsg UnableToRefreshToken s2
                       else s2\<lparr>client := True, isInitialized := True\<rparr>)
                else s1))"

definition getClient :: "env \<Rightarrow> provider_state \<Rightarrow> (provider_error + unit) \<times> provider_state" where
  "getClient e s =
     (let s' = initializeClient e s in
      if \<not> client s' then (Inl NotAuthenticated, s') else (Inr (), s'))"

definition isAuthenticated :: "provider_state \<Rightarrow> bool" where
  "isAuthenticated s = (client s \<and> isInitialized s)"

text \<open>Callers that invoke \<open>getAccessToken()\<close> one after the other, at the given clock
  readings, before the fetch of any of them has settled: each runs up to its first
  pending \<open>await\<close>. A suspended caller goes on with \<open>getAccessToken_resume\<close> when the
  reply to its own request arrives.\<close>

fun concurrent_calls ::
  "int list \<Rightarrow> provider_state \<Rightarrow> (provider_error + string) option list \<times> provider_state" where
  "concurrent_calls [] s = ([], s)"
| "concurrent_calls (clock # clocks) s =
     (case getAccessToken_begin clock s of
        (r, s1) \<Rightarrow> (case concurrent_calls clocks s1 of (rs, s2) \<Rightarrow> (r # rs, s2)))"

text \<open>A sequence of complete \<open>getAccessToken()\<close> calls, one after the other.\<close>

fun successive_calls ::
  "env list \<Rightarrow> provider_state \<Rightarrow> (provider_error + string) list \<times> provider_state" where
  "successive_calls [] s = ([], s)"
| "successive_calls (e # es) s =
     (case getAccessToken e s of
        (r, s1) \<Rightarrow> (case successive_calls es s1 of (rs, s2) \<Rightarrow> (r # rs, s2)))"

section \<open>The device authorization flow (index.ts)\<close>

definition CLIENT_ID :: string where
  "CLIENT_ID = ''14d82eec-204b-4c2f-b7e8-296a70dab67e''"

definition maxAttempts :: nat where
  "maxAttempts = 100"

text \<open>The reply to one polling request (lines 87-99): \<open>fetch\<close> or \<open>json()\<close> rejected, an
  \<open>ok\<close> response with its document, or a response that is not \<open>ok\<close> with the members
  \<open>error\<close> and \<open>error_description\<close> of its document.\<close>

datatype poll_response = PollFault | PollOk TokenResponse | PollError string string

datatype poll_error =
    UserDeclined
  | DeviceCodeExpired
  | AuthenticationFailed string string
  | AuthenticationTimedOut
  | PollException

text \<open>
  \<open>pollForToken\<close> (lines 80-130). \<open>rs n\<close> is the reply to the request number \<open>n\<close>
  (from 0). \<open>waits\<close> lists the intervals, in seconds, of the \<open>setTimeout\<close> calls made so
  far; every pass of the loop makes one \<open>setTimeout\<close> and then one request, so the
  length of \<open>waits\<close> is also the number of requests.
\<close>

function poll_loop ::
  "(nat \<Rightarrow> poll_response) \<Rightarrow> nat \<Rightarrow> int \<Rightarrow> int list \<Rightarrow> (poll_error + TokenResponse) \<times> int list" where
  "poll_loop rs attempts interval waits =
     (if attempts < maxAttempts then
        (case rs (length waits) of
           PollFault \<Rightarrow> (Inl PollException, waits @ [interval])
         | PollOk tok \<Rightarrow> (Inr tok, waits @ [interval])
         | PollError err descr \<Rightarrow>
             if err = ''authorization_pending''
               then poll_loop rs (attempts + 1) interval (waits @ [interval])
             else if err = ''slow_down''
               then poll_loop rs (attempts + 1) (interval + 5) (waits @ [interval])
             else if err = ''authorization_declined'' then (Inl UserDeclined, waits @ [interval])
             else if err = ''expired_token'' then (Inl DeviceCodeExpired, waits @ [interval])
             else (Inl (AuthenticationFailed err descr), waits @ [interval]))
      else (Inl AuthenticationTimedOut, waits))"
  by pat_completeness auto
termination
  by (relation "measure (\<lambda>(rs, attempts, interval, waits). maxAttempts - attempts)") auto

declare poll_loop.simps [simp del]

definition pollForToken ::
  "(nat \<Rightarrow> poll_response) \<Rightarrow> int \<Rightarrow> (poll_error + TokenResponse) \<times> int list" where
  "pollForToken rs interval = poll_loop rs 0 interval []"

text \<open>\<open>interface DeviceCodeResponse\<close> (lines 20-27); its members \<open>expires_in\<close> and
  \<open>interval\<close> carry the prefix \<open>dc_\<close> here.\<close>

record DeviceCodeResponse =
  device_code :: string
  user_code :: string
  verification_uri :: string
  dc_expires_in :: int
  dc_interval :: int
  message :: string

text \<open>What the environment answers during \<open>authenticate\<close>: the result of
  \<open>getDeviceCode\<close> (\<open>None\<close> when it throws), the replies to the polling requests, the clock
  read for the expiry (line 152) and for the timestamp (line 158), and the outcome of the
  write.\<close>

record auth_env =
  device :: "DeviceCodeResponse option"
  replies :: "nat \<Rightarrow> poll_response"
  auth_clock_expiry :: int
  auth_clock_stamp :: int
  auth_written :: write_outcome

text \<open>What \<open>authenticate\<close> (lines 133-179) did: the process exit code it forced (0 when
  it returned normally), the file afterwards, the documents handed to \<open>fs.writeFile\<close>,
  and the polling intervals waited.\<close>

record auth_run =
  exit_code :: nat
  file_after :: auth_file
  writes :: "StoredAuthInfo list"
  poll_waits :: "int list"

definition authenticate :: "auth_env \<Rightarrow> auth_file \<Rightarrow> auth_run" where
  "authenticate e file =
     (case device e of
        None \<Rightarrow> \<lparr>exit_code = 1, file_after = file, writes = [], poll_waits = []\<rparr>
      | Some deviceCodeInfo \<Rightarrow>
          (case pollForToken (replies e) (dc_interval deviceCodeInfo) of
             (Inl err, ws) \<Rightarrow> \<lparr>exit_code = 1, file_after = file, writes = [], poll_waits = ws\<rparr>
           | (Inr tokenResponse, ws) \<Rightarrow>
               (case toISOString (Date_after (auth_clock_expiry e) (expires_in tokenResponse)) of
                  None \<Rightarrow> \<lparr>exit_code = 1, file_after = file, writes = [], poll_waits = ws\<rparr>
                | Some isoText \<Rightarrow>
                    let info = \<lparr>clientId = Some CLIENT_ID, authenticated = Some True,
                                 timestamp = Some (IsoString (auth_clock_stamp e)),
                                 expiresAt = Some isoText,
                                 accessToken = access_token tokenResponse,
                                 refreshToken = refresh_token tokenResponse,
                                 extra = []\<rparr>
                    in (case auth_written e of
                          WriteOk \<Rightarrow>
                            \<lparr>exit_code = 0, file_after = Json info, writes = [info], poll_waits = ws\<rparr>
                        | WriteFailed remains \<Rightarrow>
                            \<lparr>exit_code = 1, file_after = remains, writes = [info], poll_waits = ws\<rparr>))))"

text \<open>The number of \<open>slow_down\<close> replies among the first \<open>n\<close> replies.\<close>

primrec slow_downs :: "(nat \<Rightarrow> poll_response) \<Rightarrow> nat \<Rightarrow> nat" where
  "slow_downs rs 0 = 0"
| "slow_downs rs (Suc n) =
     slow_downs rs n +
       (case rs n of PollError err descr \<Rightarrow> if err = ''slow_down'' then 1 else 0 | _ \<Rightarrow> 0)"

section \<open>Concrete inputs\<close>

text \<open>A new \<open>GraphService\<close> (lines 33-36) beside a given file.\<close>

definition startup :: "auth_file \<Rightarrow> provider_state" where
  "startup file = \<lparr>authInfo = None, client = False, isInitialized = False,
     authFile = file, network = [], console = []\<rparr>"

text \<open>A record that expires at 3600000 ms, an initialized provider holding it, and
  environments whose clock is within five minutes of that expiry (3400000) or an hour
  before it (0).\<close>

definition stale_info :: StoredAuthInfo where
  "stale_info = \<lparr>clientId = Some CLIENT_ID, authenticated = Some True,
     timestamp = Some (IsoString 0), expiresAt = Some (IsoString 3600000),
     accessToken = Some ''a0'', refreshToken = Some ''r0'', extra = []\<rparr>"

definition ready_state :: provider_state where
  "ready_state = \<lparr>authInfo = Some stale_info, client = True, isInitialized = True,
     authFile = Json stale_info, network = [], console = []\<rparr>"

definition new_tokens :: TokenResponse where
  "new_tokens = \<lparr>access_token = Some ''a1'', refresh_token = Some ''r1'',
     expires_in = Some 3600, token_type = Some ''Bearer'', scope = None\<rparr>"

definition accept_env :: env where
  "accept_env = \<lparr>clock_check = 3400000, fetched = Accepted (Some new_tokens),
     clock_expiry = 3400100, clock_stamp = 3400101, written = WriteOk\<rparr>"

definition reject_env :: env where
  "reject_env = \<lparr>clock_check = 3400000, fetched = Rejected 400 ''invalid_grant'',
     clock_expiry = 3400100, clock_stamp = 3400101, written = WriteOk\<rparr>"

definition early_env :: env where
  "early_env = \<lparr>clock_check = 0, fetched = NetworkFault,
     clock_expiry = 0, clock_stamp = 0, written = WriteOk\<rparr>"

text \<open>A device flow that is told to slow down twice and then receives its tokens.\<close>

definition slow_twice :: "nat \<Rightarrow> poll_response" where
  "slow_twice n = (if n < 2 then PollError ''slow_down'' [] else PollOk new_tokens)"

definition slow_env :: auth_env where
  "slow_env = \<lparr>device = Some \<lparr>device_code = ''d0'', user_code = ''u0'',
       verification_uri = ''v0'', dc_expires_in = 900, dc_interval = 5, message = ''m0''\<rparr>,
     replies = slow_twice, auth_clock_expiry = 1000, auth_clock_stamp = 1001,
     auth_written = WriteOk\<rparr>"

lemmas example_defs = startup_def stale_info_def ready_state_def new_tokens_def accept_env_def
  reject_env_def early_env_def

lemmas runtime_defs = new_Date_def Date_after_def toISOString_def date_le_def truthy_def
  maxTime_def refreshThreshold_def logmsg_def

lemmas provider_defs = refreshAccessToken_def refreshAccessToken_begin_def
  refreshAccessToken_resume_def ensureValidToken_def ensureValidToken_begin_def
  getAccessToken_def getAccessToken_begin_def getAccessToken_resume_def
  getAccessToken_finish_def Let_def

section \<open>The refresh engine\<close>

text \<open>
  Claim C9: when the record in memory has no refresh token (the member is missing or
  empty), \<open>refreshAccessToken\<close> returns false, its only trace is the console line
  "No refresh token available", and no request is sent to the token endpoint.
\<close>

theorem refresh_without_token:
  assumes "authInfo s = Some a" and "\<not> truthy (refreshToken a)"
  shows "refreshAccessToken e s = (False, s\<lparr>console := console s @ [NoRefreshTokenAvailable]\<rparr>)
       \<and> network (snd (refreshAccessToken e s)) = network s"
  using assms by (simp add: refreshAccessToken_def refreshAccessToken_begin_def logmsg_def)

theorem refresh_without_token_witness:
  "refreshAccessToken accept_env (ready_state\<lparr>authInfo := Some (stale_info\<lparr>refreshToken := None\<rparr>)\<rparr>)
     = (False, ready_state\<lparr>authInfo := Some (stale_info\<lparr>refreshToken := None\<rparr>),
                           console := [NoRefreshTokenAvailable]\<rparr>)
   \<and> network (snd (refreshAccessToken accept_env
        (ready_state\<lparr>authInfo := Some (stale_info\<lparr>refreshToken := None\<rparr>)\<rparr>))) = []"
  using refresh_without_token [of "ready_state\<lparr>authInfo := Some (stale_info\<lparr>refreshToken := None\<rparr>)\<rparr>"
      "stale_info\<lparr>refreshToken := None\<rparr>" accept_env]
  by (simp add: truthy_def ready_state_def)

text \<open>
  Claim C10: when \<open>refreshAccessToken\<close> fails before it updates anything, because there
  is no record or no refresh token, or because the token endpoint answers with a status
  that is not a success, it returns false and leaves the record in memory and the file
  as they were.
\<close>

theorem failed_refresh_changes_nothing:
  assumes "authInfo s = None \<or> (\<exists>a. authInfo s = Some a \<and> \<not> truthy (refreshToken a))
           \<or> (\<exists>status body. fetched e = Rejected status body)"
  shows "fst (refreshAccessToken e s) = False
       \<and> authInfo (snd (refreshAccessToken e s)) = authInfo s
       \<and> authFile (snd (refreshAccessToken e s)) = authFile s"
  using assms
  by (auto simp: refreshAccessToken_def refreshAccessToken_begin_def refreshAccessToken_resume_def
      logmsg_def split: option.splits)

theorem failed_refresh_changes_nothing_witness:
  "fst (refreshAccessToken reject_env ready_state) = False
   \<and> authInfo (snd (refreshAccessToken reject_env ready_state)) = Some stale_info
   \<and> authFile (snd (refreshAccessToken reject_env ready_state)) = Json stale_info
   \<and> network (snd (refreshAccessToken reject_env ready_state)) = [RefreshRequest ''r0'']"
proof -
  have rejected: "\<exists>status body. fetched reject_env = Rejected status body"
    by (simp add: reject_env_def)
  have "network (snd (refreshAccessToken reject_env ready_state)) = [RefreshRequest ''r0'']"
    by (simp add: provider_defs runtime_defs example_defs)
  with failed_refresh_changes_nothing [of ready_state reject_env] rejected show ?thesis
    by (simp add: ready_state_def)
qed

text \<open>
  Claim C8: whenever \<open>refreshAccessToken\<close> returns true, the token endpoint answered with
  a token response, and the record in memory now has the refresh token of that response
  (whatever the old one was), the access token of that response, an expiry of the clock
  reading plus \<open>expires_in\<close> seconds, and the clock reading as its timestamp; the file
  holds this same record, written before the function returned.
\<close>

theorem successful_refresh:
  assumes "refreshAccessToken e s = (True, s')"
  shows "\<exists>r ex a'. fetched e = Accepted (Some r) \<and> expires_in r = Some ex
           \<and> authInfo s' = Some a'
           \<and> accessToken a' = access_token r
           \<and> refreshToken a' = refresh_token r
           \<and> expiresAt a' = Some (IsoString (clock_expiry e + ex * 1000))
           \<and> timestamp a' = Some (IsoString (clock_stamp e))
           \<and> authFile s' = Json a'"
  using assms
  by (auto simp: refreshAccessToken_def refreshAccessToken_begin_def refreshAccessToken_resume_def
      logmsg_def toISOString_def Date_after_def Let_def
      split: option.splits if_splits fetch_outcome.splits write_outcome.splits)

theorem successful_refresh_witness:
  "fst (refreshAccessToken accept_env ready_state) = True
   \<and> (\<exists>a'. authInfo (snd (refreshAccessToken accept_env ready_state)) = Some a'
         \<and> refreshToken a' = Some ''r1''
         \<and> expiresAt a' = Some (IsoString 7000100)
         \<and> timestamp a' = Some (IsoString 3400101)
         \<and> authFile (snd (refreshAccessToken accept_env ready_state)) = Json a')"
proof -
  have ok: "refreshAccessToken accept_env ready_state
      = (True, snd (refreshAccessToken accept_env ready_state))"
    by (simp add: provider_defs runtime_defs example_defs)
  from successful_refresh [OF ok] obtain r ex a' where
    "fetched accept_env = Accepted (Some r)" and "expires_in r = Some ex"
    and "authInfo (snd (refreshAccessToken accept_env ready_state)) = Some a'"
    and "refreshToken a' = refresh_token r"
    and "expiresAt a' = Some (IsoString (clock_expiry accept_env + ex * 1000))"
    and "timestamp a' = Some (IsoString (clock_stamp accept_env))"
    and "authFile (snd (refreshAccessToken accept_env ready_state)) = Json a'"
    by blast
  moreover from this(1,2) have "r = new_tokens" and "ex = 3600"
    by (auto simp: accept_env_def new_tokens_def)
  ultimately have "authInfo (snd (refreshAccessToken accept_env ready_state)) = Some a'
      \<and> refreshToken a' = Some ''r1''
      \<and> expiresAt a' = Some (IsoString 7000100)
      \<and> timestamp a' = Some (IsoString 3400101)
      \<and> authFile (snd (refreshAccessToken accept_env ready_state)) = Json a'"
    by (simp add: accept_env_def new_tokens_def)
  with ok show ?thesis
    by (metis fst_conv)
qed

section \<open>The token provider\<close>

text \<open>
  Claim C5: when the record in memory expires later than five minutes after the clock
  reading and holds an access token, \<open>getAccessToken\<close> returns that access token and
  changes nothing: in particular the list of requests sent is the same.
\<close>

theorem fresh_token_is_served:
  assumes "authInfo s = Some a" and "new_Date (expiresAt a) = Some t"
    and "refreshThreshold (clock_check e) < t" and "truthy (accessToken a)"
  shows "getAccessToken e s = (Inr (the (accessToken a)), s)"
  using assms
  by (simp add: getAccessToken_def getAccessToken_begin_def ensureValidToken_begin_def
      getAccessToken_finish_def date_le_def)

theorem fresh_token_is_served_witness:
  "getAccessToken early_env ready_state = (Inr ''a0'', ready_state)"
  using fresh_token_is_served [of ready_state stale_info 3600000 early_env]
  by (simp add: runtime_defs example_defs)

text \<open>A caller that finds the record within five minutes of its expiry, with a refresh
  token, sends a request before it suspends.\<close>

lemma stale_call_sends_request:
  assumes "authInfo s = Some a" and "truthy (refreshToken a)"
    and "new_Date (expiresAt a) = Some t" and "t \<le> refreshThreshold clock"
  shows "getAccessToken_begin clock s
     = (None, s\<lparr>network := network s @ [RefreshRequest (the (refreshToken a))],
                 console := console s @ [TokenExpiringSoon]\<rparr>)"
  using assms
  by (simp add: getAccessToken_begin_def ensureValidToken_begin_def refreshAccessToken_begin_def
      date_le_def logmsg_def)

text \<open>
  Claim C1, as the code has it: the provider shares no refresh in flight. Every caller
  that finds the record within five minutes of its expiry (with a refresh token) sends
  its own request to the token endpoint and suspends on it; callers that all start
  before any reply arrives send as many requests as there are callers, each with the
  same stored refresh token, and the record in memory is still the old one.
\<close>

theorem every_caller_sends_a_refresh:
  assumes "authInfo s = Some a" and "truthy (refreshToken a)"
    and "new_Date (expiresAt a) = Some t" and "\<forall>clock \<in> set clocks. t \<le> refreshThreshold clock"
  shows "fst (concurrent_calls clocks s) = replicate (length clocks) None
       \<and> network (snd (concurrent_calls clocks s))
           = network s @ replicate (length clocks) (RefreshRequest (the (refreshToken a)))
       \<and> authInfo (snd (concurrent_calls clocks s)) = authInfo s"
  using assms
proof (induction clocks arbitrary: s)
  case Nil
  then show ?case by simp
next
  case (Cons clock clocks)
  let ?s1 = "s\<lparr>network := network s @ [RefreshRequest (the (refreshToken a))],
                 console := console s @ [TokenExpiringSoon]\<rparr>"
  from Cons.prems have step: "getAccessToken_begin clock s = (None, ?s1)"
    by (simp add: stale_call_sends_request)
  from Cons.prems have "authInfo ?s1 = Some a" and "\<forall>c \<in> set clocks. t \<le> refreshThreshold c"
    by simp_all
  from Cons.IH [OF this(1) Cons.prems(2,3) this(2)] step show ?case
    by (simp add: split_beta replicate_append_same)
qed

theorem every_caller_sends_a_refresh_witness:
  "fst (concurrent_calls [3400000, 3400001] ready_state) = [None, None]
   \<and> network (snd (concurrent_calls [3400000, 3400001] ready_state))
       = [RefreshRequest ''r0'', RefreshRequest ''r0'']
   \<and> authInfo (snd (concurrent_calls [3400000, 3400001] ready_state)) = Some stale_info"
  using every_caller_sends_a_refresh [of ready_state stale_info 3600000 "[3400000, 3400001]"]
  by (simp add: runtime_defs example_defs)

text \<open>
  Two callers find the record stale one millisecond apart. Two requests go out, not one.
  The reply to the first is a new pair of tokens, and the first caller gets the new
  access token; the reply to the second is a rejection, and the second caller fails: the
  two callers do not see the same result.
\<close>

theorem single_flight_counterexample:
  "network (snd (concurrent_calls [3400000, 3400001] ready_state))
     = [RefreshRequest ''r0'', RefreshRequest ''r0'']
   \<and> fst (getAccessToken_resume accept_env (snd (concurrent_calls [3400000, 3400001] ready_state)))
       = Inr ''a1''
   \<and> fst (getAccessToken_resume reject_env
        (snd (getAccessToken_resume accept_env
           (snd (concurrent_calls [3400000, 3400001] ready_state)))))
       = Inl UnableToObtainToken"
  by (simp add: provider_defs runtime_defs example_defs)

text \<open>A call that needs a refresh and is rejected by the token endpoint fails, and
  leaves behind nothing but the request and two console lines.\<close>

lemma rejected_call:
  assumes "authInfo s = Some a" and "truthy (refreshToken a)"
    and "new_Date (expiresAt a) = Some t" and "t \<le> refreshThreshold (clock_check e)"
    and "fetched e = Rejected status body"
  shows "getAccessToken e s
     = (Inl UnableToObtainToken,
        s\<lparr>network := network s @ [RefreshRequest (the (refreshToken a))],
          console := console s @ [TokenExpiringSoon, TokenRefreshFailed status body]\<rparr>)"
  using assms
  by (simp add: provider_defs date_le_def logmsg_def)

text \<open>
  Claim C2, as the code has it: a \<open>getAccessToken\<close> call whose refresh the token endpoint
  rejects fails ("Unable to obtain valid access token") and changes neither the record in
  memory, nor the file, nor the client, nor the initialized flag: the provider enters no
  unauthenticated state. Every later call made while the record is still within five
  minutes of its expiry sends one more refresh request, and fails again when that is
  rejected again.
\<close>

theorem rejected_refresh_is_retried:
  assumes "authInfo s = Some a" and "truthy (refreshToken a)"
    and "new_Date (expiresAt a) = Some t"
    and "\<forall>e \<in> set es. t \<le> refreshThreshold (clock_check e)
           \<and> (\<exists>status body. fetched e = Rejected status body)"
  shows "fst (successive_calls es s) = replicate (length es) (Inl UnableToObtainToken)
       \<and> network (snd (successive_calls es s))
           = network s @ replicate (length es) (RefreshRequest (the (refreshToken a)))
       \<and> authInfo (snd (successive_calls es s)) = authInfo s
       \<and> authFile (snd (successive_calls es s)) = authFile s
       \<and> client (snd (successive_calls es s)) = client s
       \<and> isInitialized (snd (successive_calls es s)) = isInitialized s"
  using assms
proof (induction es arbitrary: s)
  case Nil
  then show ?case by simp
next
  case (Cons e es)
  from Cons.prems(4) obtain status body where rej: "fetched e = Rejected status body"
    and stale: "t \<le> refreshThreshold (clock_check e)"
    by auto
  let ?s1 = "s\<lparr>network := network s @ [RefreshRequest (the (refreshToken a))],
       console := console s @ [TokenExpiringSoon, TokenRefreshFailed status body]\<rparr>"
  from Cons.prems rej stale have step: "getAccessToken e s = (Inl UnableToObtainToken, ?s1)"
    by (simp add: rejected_call)
  from Cons.prems have "authInfo ?s1 = Some a"
    and "\<forall>e \<in> set es. t \<le> refreshThreshold (clock_check e)
           \<and> (\<exists>status body. fetched e = Rejected status body)"
    by simp_all
  from Cons.IH [OF this(1) Cons.prems(2,3) this(2)] step show ?case
    by (simp add: split_beta replicate_append_same)
qed

theorem rejected_refresh_is_retried_witness:
  "fst (successive_calls [reject_env, reject_env] ready_state)
     = [Inl UnableToObtainToken, Inl UnableToObtainToken]
   \<and> network (snd (successive_calls [reject_env, reject_env] ready_state))
       = [RefreshRequest ''r0'', RefreshRequest ''r0'']
   \<and> isAuthenticated (snd (successive_calls [reject_env, reject_env] ready_state))"
  using rejected_refresh_is_retried [of ready_state stale_info 3600000 "[reject_env, reject_env]"]
  by (simp add: runtime_defs example_defs isAuthenticated_def)

text \<open>
  The token endpoint rejects the refresh of a first call. The call fails after one
  request, the provider still counts as authenticated, and a second call sends a second
  request.
\<close>

theorem unauthenticated_after_rejection_counterexample:
  "fst (getAccessToken reject_env ready_state) = Inl UnableToObtainToken
   \<and> network (snd (getAccessToken reject_env ready_state)) = [RefreshRequest ''r0'']
   \<and> isAuthenticated (snd (getAccessToken reject_env ready_state))
   \<and> network (snd (getAccessToken reject_env (snd (getAccessToken reject_env ready_state))))
       = [RefreshRequest ''r0'', RefreshRequest ''r0'']"
  by (simp add: provider_defs runtime_defs example_defs isAuthenticated_def)

section \<open>Loading the stored document\<close>

text \<open>The members of the document that the interface does not name change neither
  whether a client is made, nor the requests sent, nor the console.\<close>

lemma extra_is_ignored:
  "client (initializeClient e (s\<lparr>authFile := Json (d\<lparr>extra := x\<rparr>)\<rparr>))
       = client (initializeClient e (s\<lparr>authFile := Json d\<rparr>))
   \<and> isInitialized (initializeClient e (s\<lparr>authFile := Json (d\<lparr>extra := x\<rparr>)\<rparr>))
       = isInitialized (initializeClient e (s\<lparr>authFile := Json d\<rparr>))
   \<and> network (initializeClient e (s\<lparr>authFile := Json (d\<lparr>extra := x\<rparr>)\<rparr>))
       = network (initializeClient e (s\<lparr>authFile := Json d\<rparr>))
   \<and> console (initializeClient e (s\<lparr>authFile := Json (d\<lparr>extra := x\<rparr>)\<rparr>))
       = console (initializeClient e (s\<lparr>authFile := Json d\<rparr>))"
  by (simp add: initializeClient_def provider_defs logmsg_def
      split: option.splits fetch_outcome.splits write_outcome.splits)

text \<open>What \<open>getClient\<close> makes of a document, by the members it has.\<close>

lemma unusable_document:
  assumes "\<not> isInitialized s" and "\<not> client s" and "authFile s = Json d"
    and "authenticated d \<noteq> Some True \<or> \<not> truthy (accessToken d)"
  shows "getClient e s = (Inl NotAuthenticated, s\<lparr>authInfo := Some d\<rparr>)"
  using assms by (auto simp: getClient_def initializeClient_def Let_def)

lemma no_refresh_token_when_stale:
  assumes "\<not> isInitialized s" and "\<not> client s" and "authFile s = Json d"
    and "authenticated d = Some True" and "truthy (accessToken d)"
    and "\<not> truthy (refreshToken d)"
    and "date_le (new_Date (expiresAt d)) (Some (refreshThreshold (clock_check e)))"
  shows "fst (getClient e s) = Inl NotAuthenticated \<and> network (snd (getClient e s)) = network s"
  using assms
  by (simp add: getClient_def initializeClient_def ensureValidToken_def ensureValidToken_begin_def
      refreshAccessToken_begin_def logmsg_def Let_def)

lemma fresh_document_is_used:
  assumes "\<not> isInitialized s" and "authFile s = Json d"
    and "authenticated d = Some True" and "truthy (accessToken d)"
    and "new_Date (expiresAt d) = Some t" and "refreshThreshold (clock_check e) < t"
  shows "getClient e s = (Inr (), s\<lparr>authInfo := Some d, client := True, isInitialized := True\<rparr>)
       \<and> getAccessToken e (snd (getClient e s)) = (Inr (the (accessToken d)), snd (getClient e s))"
  using assms
  by (simp add: getClient_def initializeClient_def ensureValidToken_def ensureValidToken_begin_def
      getAccessToken_def getAccessToken_begin_def getAccessToken_finish_def date_le_def Let_def)

text \<open>
  Claim C4, as the code has it: for a provider that is not yet initialized, members of
  the stored document that the interface does not name do not change whether a client is
  made or which requests are sent. A document whose \<open>authenticated\<close> is missing or not
  true, or whose \<open>accessToken\<close> is missing or empty, leaves the provider without a client:
  \<open>getClient\<close> fails with "Not authenticated" and no request is sent. A document without
  \<open>refreshToken\<close> leaves the provider without a client only when its \<open>expiresAt\<close> is
  within five minutes of the clock reading (the refresh it needs cannot start; no
  request is sent). A document that expires later than that is used, with or without a
  \<open>refreshToken\<close>: the client is made and its access token is served.
\<close>

theorem loading_checks_two_members:
  assumes "\<not> isInitialized s" and "\<not> client s" and "authFile s = Json d"
  shows "(\<forall>x. client (initializeClient e (s\<lparr>authFile := Json (d\<lparr>extra := x\<rparr>)\<rparr>))
              = client (initializeClient e s)
          \<and> isInitialized (initializeClient e (s\<lparr>authFile := Json (d\<lparr>extra := x\<rparr>)\<rparr>))
              = isInitialized (initializeClient e s)
          \<and> network (initializeClient e (s\<lparr>authFile := Json (d\<lparr>extra := x\<rparr>)\<rparr>))
              = network (initializeClient e s))
       \<and> (authenticated d \<noteq> Some True \<or> \<not> truthy (accessToken d)
            \<longrightarrow> getClient e s = (Inl NotAuthenticated, s\<lparr>authInfo := Some d\<rparr>))
       \<and> (authenticated d = Some True \<and> truthy (accessToken d) \<and> \<not> truthy (refreshToken d)
            \<and> date_le (new_Date (expiresAt d)) (Some (refreshThreshold (clock_check e)))
            \<longrightarrow> fst (getClient e s) = Inl NotAuthenticated
              \<and> network (snd (getClient e s)) = network s)
       \<and> (\<forall>t. authenticated d = Some True \<and> truthy (accessToken d)
            \<and> new_Date (expiresAt d) = Some t \<and> refreshThreshold (clock_check e) < t
            \<longrightarrow> getClient e s
                  = (Inr (), s\<lparr>authInfo := Some d, client := True, isInitialized := True\<rparr>)
              \<and> getAccessToken e (snd (getClient e s))
                  = (Inr (the (accessToken d)), snd (getClient e s)))"
proof -
  from assms(3) have same: "s\<lparr>authFile := Json d\<rparr> = s" by simp
  have "\<forall>x. client (initializeClient e (s\<lparr>authFile := Json (d\<lparr>extra := x\<rparr>)\<rparr>))
              = client (initializeClient e s)
          \<and> isInitialized (initializeClient e (s\<lparr>authFile := Json (d\<lparr>extra := x\<rparr>)\<rparr>))
              = isInitialized (initializeClient e s)
          \<and> network (initializeClient e (s\<lparr>authFile := Json (d\<lparr>extra := x\<rparr>)\<rparr>))
              = network (initializeClient e s)"
    using extra_is_ignored [where e = e and s = s and d = d] same by simp
  moreover have "authenticated d \<noteq> Some True \<or> \<not> truthy (accessToken d)
            \<longrightarrow> getClient e s = (Inl NotAuthenticated, s\<lparr>authInfo := Some d\<rparr>)"
    using unusable_document [OF assms] by blast
  moreover have "authenticated d = Some True \<and> truthy (accessToken d) \<and> \<not> truthy (refreshToken d)
            \<and> date_le (new_Date (expiresAt d)) (Some (refreshThreshold (clock_check e)))
            \<longrightarrow> fst (getClient e s) = Inl NotAuthenticated
              \<and> network (snd (getClient e s)) = network s"
    using no_refresh_token_when_stale [OF assms] by blast
  moreover have "\<forall>t. authenticated d = Some True \<and> truthy (accessToken d)
            \<and> new_Date (expiresAt d) = Some t \<and> refreshThreshold (clock_check e) < t
            \<longrightarrow> getClient e s
                  = (Inr (), s\<lparr>authInfo := Some d, client := True, isInitialized := True\<rparr>)
              \<and> getAccessToken e (snd (getClient e s))
                  = (Inr (the (accessToken d)), snd (getClient e s))"
    using fresh_document_is_used [OF assms(1,3)] by blast
  ultimately show ?thesis by blast
qed

theorem loading_checks_two_members_witness:
  "fst (getClient accept_env (startup (Json (stale_info\<lparr>accessToken := None\<rparr>))))
     = Inl NotAuthenticated
   \<and> fst (getClient accept_env (startup (Json (stale_info\<lparr>refreshToken := None\<rparr>))))
     = Inl NotAuthenticated
   \<and> network (snd (getClient accept_env (startup (Json (stale_info\<lparr>refreshToken := None\<rparr>))))) = []
   \<and> fst (getAccessToken early_env
        (snd (getClient early_env (startup (Json (stale_info\<lparr>refreshToken := None\<rparr>))))))
     = Inr ''a0''
   \<and> client (initializeClient early_env
        ((startup (Json stale_info))\<lparr>authFile := Json (stale_info\<lparr>extra := [(''theme'', ''dark'')]\<rparr>)\<rparr>))"
proof -
  have fresh: "\<not> isInitialized (startup (Json d))" "\<not> client (startup (Json d))"
    "authFile (startup (Json d)) = Json d" for d
    by (simp_all add: startup_def)
  let ?no_access = "stale_info\<lparr>accessToken := None\<rparr>"
  let ?no_refresh = "stale_info\<lparr>refreshToken := None\<rparr>"
  have "authenticated ?no_access \<noteq> Some True \<or> \<not> truthy (accessToken ?no_access)"
    by (simp add: truthy_def)
  from loading_checks_two_members [OF fresh [of ?no_access], of accept_env,
      THEN conjunct2, THEN conjunct1, rule_format, OF this]
  have one: "fst (getClient accept_env (startup (Json ?no_access))) = Inl NotAuthenticated"
    by simp
  have "authenticated ?no_refresh = Some True \<and> truthy (accessToken ?no_refresh)
      \<and> \<not> truthy (refreshToken ?no_refresh)
      \<and> date_le (new_Date (expiresAt ?no_refresh)) (Some (refreshThreshold (clock_check accept_env)))"
    by (simp add: runtime_defs example_defs)
  from loading_checks_two_members [OF fresh [of ?no_refresh], of accept_env,
      THEN conjunct2, THEN conjunct2, THEN conjunct1, rule_format, OF this]
  have two: "fst (getClient accept_env (startup (Json ?no_refresh))) = Inl NotAuthenticated
      \<and> network (snd (getClient accept_env (startup (Json ?no_refresh)))) = []"
    by (simp add: startup_def)
  have "authenticated ?no_refresh = Some True \<and> truthy (accessToken ?no_refresh)
      \<and> new_Date (expiresAt ?no_refresh) = Some 3600000
      \<and> refreshThreshold (clock_check early_env) < 3600000"
    by (simp add: runtime_defs example_defs)
  from loading_checks_two_members [OF fresh [of ?no_refresh], of early_env,
      THEN conjunct2, THEN conjunct2, THEN conjunct2, rule_format, OF this, THEN conjunct2]
  have three: "fst (getAccessToken early_env (snd (getClient early_env (startup (Json ?no_refresh)))))
      = Inr ''a0''"
    by (simp add: stale_info_def)
  have "authenticated stale_info = Some True \<and> truthy (accessToken stale_info)
      \<and> new_Date (expiresAt stale_info) = Some 3600000
      \<and> refreshThreshold (clock_check early_env) < 3600000"
    by (simp add: runtime_defs example_defs)
  from loading_checks_two_members [OF fresh [of stale_info], of early_env,
      THEN conjunct2, THEN conjunct2, THEN conjunct2, rule_format, OF this, THEN conjunct1]
  have "client (snd (getClient early_env (startup (Json stale_info))))"
    by simp
  then have "client (initializeClient early_env (startup (Json stale_info)))"
    by (simp add: getClient_def Let_def split: if_splits)
  with loading_checks_two_members [OF fresh [of stale_info], of early_env,
      THEN conjunct1, rule_format, of "[(''theme'', ''dark'')]"]
  have four: "client (initializeClient early_env
      ((startup (Json stale_info))\<lparr>authFile := Json (stale_info\<lparr>extra := [(''theme'', ''dark'')]\<rparr>)\<rparr>))"
    by simp
  from one two three four show ?thesis
    by simp
qed

text \<open>
  A stored document has no \<open>refreshToken\<close> and expires in an hour. The provider does not
  treat it as missing: \<open>getClient\<close> succeeds and \<open>getAccessToken\<close> serves the access token
  of the partial record.
\<close>

theorem partial_record_counterexample:
  "fst (getClient early_env (startup (Json (stale_info\<lparr>refreshToken := None\<rparr>)))) = Inr ()
   \<and> fst (getAccessToken early_env
        (snd (getClient early_env (startup (Json (stale_info\<lparr>refreshToken := None\<rparr>))))))
       = Inr ''a0''"
  by (simp add: getClient_def initializeClient_def provider_defs runtime_defs example_defs)

section \<open>Device-flow polling\<close>

text \<open>The loop makes at most \<open>maxAttempts - attempts\<close> further requests.\<close>

lemma poll_loop_length:
  "length (snd (poll_loop rs attempts interval waits)) \<le> length waits + (maxAttempts - attempts)"
proof (induction rs attempts interval waits rule: poll_loop.induct)
  case (1 rs attempts interval waits)
  show ?case
  proof (cases "attempts < maxAttempts")
    case False
    then show ?thesis by (simp add: poll_loop.simps)
  next
    case True
    show ?thesis
    proof (cases "rs (length waits)")
      case PollFault
      with True show ?thesis by (simp add: poll_loop.simps)
    next
      case (PollOk tok)
      with True show ?thesis by (simp add: poll_loop.simps)
    next
      case (PollError err descr)
      with True "1.IH"(1) [OF True PollError] "1.IH"(2) [OF True PollError]
      show ?thesis
        by (subst poll_loop.simps) (auto simp: Suc_diff_Suc)
    qed
  qed
qed

text \<open>While every reply is \<open>authorization_pending\<close> or \<open>slow_down\<close>, the loop uses up all
  its attempts and then times out.\<close>

lemma poll_loop_waiting:
  "\<forall>n. \<exists>d. rs n = PollError ''authorization_pending'' d \<or> rs n = PollError ''slow_down'' d
   \<Longrightarrow> \<exists>ws. poll_loop rs attempts interval waits = (Inl AuthenticationTimedOut, ws)
          \<and> length ws = length waits + (maxAttempts - attempts)"
proof (induction rs attempts interval waits rule: poll_loop.induct)
  case (1 rs attempts interval waits)
  note waiting = "1.prems"
  show ?case
  proof (cases "attempts < maxAttempts")
    case False
    then show ?thesis by (simp add: poll_loop.simps)
  next
    case True
    from waiting obtain d where
      "rs (length waits) = PollError ''authorization_pending'' d
       \<or> rs (length waits) = PollError ''slow_down'' d"
      by blast
    then show ?thesis
    proof
      assume p: "rs (length waits) = PollError ''authorization_pending'' d"
      from "1.IH"(1) [OF True p refl waiting] True p show ?thesis
        by (subst poll_loop.simps) (auto simp: Suc_diff_Suc)
    next
      assume p: "rs (length waits) = PollError ''slow_down'' d"
      have ne: "''slow_down'' \<noteq> ''authorization_pending''" by simp
      from "1.IH"(2) [OF True p ne refl waiting] True p show ?thesis
        by (subst poll_loop.simps) (auto simp: Suc_diff_Suc)
    qed
  qed
qed

text \<open>When the replies before number \<open>k\<close> are \<open>authorization_pending\<close> or \<open>slow_down\<close> and
  reply \<open>k\<close> is a success, the loop that has handled \<open>j\<close> replies goes on to that success,
  and the interval waited before request \<open>n\<close> is the first interval plus five seconds for
  every \<open>slow_down\<close> among the replies before \<open>n\<close>.\<close>

lemma poll_loop_until_ok:
  assumes "k < maxAttempts"
    and "\<forall>n<k. \<exists>d. rs n = PollError ''authorization_pending'' d \<or> rs n = PollError ''slow_down'' d"
    and "rs k = PollOk tok"
  shows "j \<le> k \<Longrightarrow>
     poll_loop rs j (i0 + 5 * int (slow_downs rs j)) (map (\<lambda>n. i0 + 5 * int (slow_downs rs n)) [0..<j])
       = (Inr tok, map (\<lambda>n. i0 + 5 * int (slow_downs rs n)) [0..<Suc k])"
proof (induction "k - j" arbitrary: j)
  case 0
  then have "j = k" by simp
  with assms(1,3) show ?case
    by (subst poll_loop.simps) simp
next
  case (Suc m)
  then have jk: "j < k" and m: "m = k - Suc j" and sj: "Suc j \<le> k" by simp_all
  from jk assms(1) have jmax: "j < maxAttempts" by simp
  from jk assms(2) obtain d where
    "rs j = PollError ''authorization_pending'' d \<or> rs j = PollError ''slow_down'' d"
    by blast
  then show ?case
  proof
    assume p: "rs j = PollError ''authorization_pending'' d"
    from Suc.hyps(1) [OF m sj] jmax p show ?thesis
      by (subst poll_loop.simps) simp
  next
    assume p: "rs j = PollError ''slow_down'' d"
    from Suc.hyps(1) [OF m sj] jmax p show ?thesis
      by (subst poll_loop.simps) (simp add: algebra_simps)
  qed
qed

text \<open>
  Claim C6: \<open>pollForToken\<close> is a total function: it returns for every sequence of
  replies. It never makes more than \<open>maxAttempts\<close> = 100 requests, and when every reply
  is \<open>authorization_pending\<close> or \<open>slow_down\<close> it makes exactly 100 requests and then fails
  with "Authentication timed out".
\<close>

theorem polling_is_capped:
  "length (snd (pollForToken rs interval)) \<le> maxAttempts
   \<and> ((\<forall>n. \<exists>d. rs n = PollError ''authorization_pending'' d \<or> rs n = PollError ''slow_down'' d)
        \<longrightarrow> fst (pollForToken rs interval) = Inl AuthenticationTimedOut
          \<and> length (snd (pollForToken rs interval)) = maxAttempts)"
proof -
  have "length (snd (pollForToken rs interval)) \<le> maxAttempts"
    using poll_loop_length [of rs 0 interval "[]"] by (simp add: pollForToken_def)
  moreover have "fst (pollForToken rs interval) = Inl AuthenticationTimedOut
      \<and> length (snd (pollForToken rs interval)) = maxAttempts"
    if "\<forall>n. \<exists>d. rs n = PollError ''authorization_pending'' d \<or> rs n = PollError ''slow_down'' d"
    using poll_loop_waiting [OF that, of 0 interval "[]"] by (auto simp: pollForToken_def)
  ultimately show ?thesis by blast
qed

theorem polling_is_capped_witness:
  "fst (pollForToken (\<lambda>n. PollError ''authorization_pending'' []) 5) = Inl AuthenticationTimedOut
   \<and> length (snd (pollForToken (\<lambda>n. PollError ''authorization_pending'' []) 5)) = 100"
  using polling_is_capped [of "\<lambda>n. PollError ''authorization_pending'' []" 5]
  by (simp add: maxAttempts_def)

text \<open>
  Claim C7: while the replies are \<open>authorization_pending\<close> or \<open>slow_down\<close>, polling goes
  on, and every \<open>slow_down\<close> adds exactly five seconds to the interval: when reply \<open>k\<close> is
  the success, the interval waited before request \<open>n\<close> (for every \<open>n\<close> up to \<open>k\<close>) is the
  first interval plus five seconds times the number of \<open>slow_down\<close> replies before \<open>n\<close>.
  \<open>authenticate\<close> then calls \<open>fs.writeFile\<close> exactly once, with the record built from
  the token response, and when that write succeeds the file holds this record and
  \<open>authenticate\<close> returns normally. With two \<open>slow_down\<close> replies and then the success,
  the intervals are the first one, that plus 5 and that plus 10.
\<close>

theorem slow_down_adds_five_seconds:
  assumes "k < maxAttempts"
    and "\<forall>n<k. \<exists>d. rs n = PollError ''authorization_pending'' d \<or> rs n = PollError ''slow_down'' d"
    and "rs k = PollOk tok"
  shows "pollForToken rs interval
           = (Inr tok, map (\<lambda>n. interval + 5 * int (slow_downs rs n)) [0..<Suc k])
       \<and> (\<forall>e file dc ex.
            device e = Some dc \<and> dc_interval dc = interval \<and> replies e = rs
              \<and> expires_in tok = Some ex \<and> \<bar>auth_clock_expiry e + ex * 1000\<bar> \<le> maxTime
            \<longrightarrow> poll_waits (authenticate e file)
                  = map (\<lambda>n. interval + 5 * int (slow_downs rs n)) [0..<Suc k]
              \<and> writes (authenticate e file)
                  = [\<lparr>clientId = Some CLIENT_ID, authenticated = Some True,
                      timestamp = Some (IsoString (auth_clock_stamp e)),
                      expiresAt = Some (IsoString (auth_clock_expiry e + ex * 1000)),
                      accessToken = access_token tok, refreshToken = refresh_token tok,
                      extra = []\<rparr>]
              \<and> (auth_written e = WriteOk
                   \<longrightarrow> file_after (authenticate e file)
                         = Json \<lparr>clientId = Some CLIENT_ID, authenticated = Some True,
                             timestamp = Some (IsoString (auth_clock_stamp e)),
                             expiresAt = Some (IsoString (auth_clock_expiry e + ex * 1000)),
                             accessToken = access_token tok, refreshToken = refresh_token tok,
                             extra = []\<rparr>
                     \<and> exit_code (authenticate e file) = 0))"
proof -
  have poll: "pollForToken rs interval
      = (Inr tok, map (\<lambda>n. interval + 5 * int (slow_downs rs n)) [0..<Suc k])"
    using poll_loop_until_ok [OF assms, of 0 interval] by (simp add: pollForToken_def)
  then show ?thesis
    by (auto simp: authenticate_def toISOString_def Date_after_def Let_def
        split: write_outcome.splits)
qed

theorem slow_down_adds_five_seconds_witness:
  "pollForToken slow_twice 5 = (Inr new_tokens, [5, 5 + 5, 5 + 10])
   \<and> poll_waits (authenticate slow_env NoFile) = [5, 5 + 5, 5 + 10]
   \<and> writes (authenticate slow_env NoFile)
       = [\<lparr>clientId = Some CLIENT_ID, authenticated = Some True,
           timestamp = Some (IsoString 1001), expiresAt = Some (IsoString 3601000),
           accessToken = Some ''a1'', refreshToken = Some ''r1'', extra = []\<rparr>]
   \<and> file_after (authenticate slow_env NoFile)
       = Json \<lparr>clientId = Some CLIENT_ID, authenticated = Some True,
           timestamp = Some (IsoString 1001), expiresAt = Some (IsoString 3601000),
           accessToken = Some ''a1'', refreshToken = Some ''r1'', extra = []\<rparr>
   \<and> exit_code (authenticate slow_env NoFile) = 0"
proof -
  have cap: "2 < maxAttempts"
    by (simp add: maxAttempts_def)
  have slow: "\<forall>n<2. \<exists>d. slow_twice n = PollError ''authorization_pending'' d
      \<or> slow_twice n = PollError ''slow_down'' d"
    by (simp add: slow_twice_def)
  have ok: "slow_twice 2 = PollOk new_tokens"
    by (simp add: slow_twice_def)
  have counted: "map (\<lambda>n. 5 + 5 * int (slow_downs slow_twice n)) [0..<Suc 2] = [5, 10, 15]"
    by (simp add: slow_twice_def eval_nat_numeral upt_rec)
  note run = slow_down_adds_five_seconds [OF cap slow ok, of 5]
  from run counted have polled: "pollForToken slow_twice 5 = (Inr new_tokens, [5, 10, 15])"
    by simp
  have flow: "device slow_env = Some (the (device slow_env)) \<and> dc_interval (the (device slow_env)) = 5
      \<and> replies slow_env = slow_twice \<and> expires_in new_tokens = Some 3600
      \<and> \<bar>auth_clock_expiry slow_env + 3600 * 1000\<bar> \<le> maxTime"
    by (simp add: slow_env_def new_tokens_def maxTime_def)
  have saved: "auth_written slow_env = WriteOk"
    by (simp add: slow_env_def)
  note outcome = run [THEN conjunct2, rule_format, OF flow, of NoFile]
  from outcome have "poll_waits (authenticate slow_env NoFile)
        = map (\<lambda>n. 5 + 5 * int (slow_downs slow_twice n)) [0..<Suc 2]
      \<and> writes (authenticate slow_env NoFile)
        = [\<lparr>clientId = Some CLIENT_ID, authenticated = Some True,
            timestamp = Some (IsoString (auth_clock_stamp slow_env)),
            expiresAt = Some (IsoString (auth_clock_expiry slow_env + 3600 * 1000)),
            accessToken = access_token new_tokens, refreshToken = refresh_token new_tokens,
            extra = []\<rparr>]"
    by blast
  moreover from outcome saved have "file_after (authenticate slow_env NoFile)
        = Json \<lparr>clientId = Some CLIENT_ID, authenticated = Some True,
            timestamp = Some (IsoString (auth_clock_stamp slow_env)),
            expiresAt = Some (IsoString (auth_clock_expiry slow_env + 3600 * 1000)),
            accessToken = access_token new_tokens, refreshToken = refresh_token new_tokens,
            extra = []\<rparr>
      \<and> exit_code (authenticate slow_env NoFile) = 0"
    by blast
  ultimately show ?thesis
    using counted polled by (simp add: slow_env_def new_tokens_def)
qed

end
